theory Spec2Isabelle
  imports Main "HOL-Library.Word" "HOL-Library.List_Lexorder"
begin

unbundle bit_operations_syntax

section \<open>JavaScript values used by the sources\<close>

text \<open>
  JavaScript Numbers that hold integers are modelled as \<open>int\<close>. The bitwise
  operators of the language first convert their operand to a signed 32-bit
  integer and return a signed 32-bit integer; \<open>js_shl\<close>, \<open>js_sar\<close> and
  \<open>js_xor\<close> are the left shift, the sign-propagating right shift and the
  bitwise exclusive or.
\<close>

definition js_shl :: "int \<Rightarrow> nat \<Rightarrow> int" where
  "js_shl x n = sint (push_bit n (word_of_int x :: 32 word))"

definition js_sar :: "int \<Rightarrow> nat \<Rightarrow> int" where
  "js_sar x n = sint (signed_drop_bit n (word_of_int x :: 32 word))"


lemma sint_small: "- (2 ^ 31) \<le> x \<Longrightarrow> x < 2 ^ 31 \<Longrightarrow> sint (word_of_int x :: 32 word) = x"
  by (simp add: int_word_sint)

lemma js_sar_small: "0 \<le> x \<Longrightarrow> x < 2 ^ 31 \<Longrightarrow> js_sar x (Suc 0) = x div 2"
  by (simp add: js_sar_def sint_signed_drop_bit_eq sint_small drop_bit_eq_div)

lemma js_sar_range: "js_sar x (Suc 0) < 2 ^ 30"
proof -
  have "sint (word_of_int x :: 32 word) < 2 ^ 31"
    using sint_lt [of "word_of_int x :: 32 word"] by simp
  then show ?thesis
    by (simp add: js_sar_def sint_signed_drop_bit_eq drop_bit_eq_div)
qed

lemma js_sar_less: "1 < x \<Longrightarrow> js_sar x (Suc 0) < x"
proof (cases "x < 2 ^ 31")
  case True
  assume "1 < x"
  then show ?thesis using True by (simp add: js_sar_small)
next
  case False
  then show ?thesis using js_sar_range [of x] by simp
qed

lemma js_shl_small: "0 \<le> x \<Longrightarrow> x < 2 ^ 30 \<Longrightarrow> js_shl x (Suc 0) = 2 * x"
proof -
  assume a: "0 \<le> x" "x < 2 ^ 30"
  have "push_bit (Suc 0) (word_of_int x :: 32 word) = word_of_int (2 * x)"
    by (simp add: push_bit_eq_mult)
  then have "js_shl x (Suc 0) = sint (word_of_int (2 * x) :: 32 word)"
    unfolding js_shl_def by (rule arg_cong)
  also have "\<dots> = 2 * x"
    using a by (intro sint_small) auto
  finally show ?thesis .
qed



text \<open>
  A property that may be missing is an \<open>option\<close>: \<open>None\<close> is \<open>undefined\<close>.
  \<open>js_or0 v\<close> is \<open>v || 0\<close> on such a number, \<open>js_lt\<close> and \<open>js_gt\<close> are the
  comparisons less-than and greater-than where the right operand may be
  \<open>undefined\<close> (comparing with \<open>undefined\<close> is false).
\<close>

definition js_or0 :: "int option \<Rightarrow> int" where
  "js_or0 v = (case v of None \<Rightarrow> 0 | Some n \<Rightarrow> if n = 0 then 0 else n)"

definition js_lt :: "int \<Rightarrow> int option \<Rightarrow> bool" where
  "js_lt a b = (case b of None \<Rightarrow> False | Some n \<Rightarrow> a < n)"

definition js_gt :: "int \<Rightarrow> int option \<Rightarrow> bool" where
  "js_gt a b = (case b of None \<Rightarrow> False | Some n \<Rightarrow> a > n)"

subsection \<open>Digits\<close>

definition digit_char :: "nat \<Rightarrow> char" where
  "digit_char d = ''0123456789abcdef'' ! (d mod 16)"

fun to_hex :: "nat \<Rightarrow> string" where
  "to_hex n = (if n < 16 then [digit_char n] else to_hex (n div 16) @ [digit_char (n mod 16)])"

fun to_decimal :: "nat \<Rightarrow> string" where
  "to_decimal n = (if n < 10 then [digit_char n] else to_decimal (n div 10) @ [digit_char (n mod 10)])"

declare to_hex.simps [simp del]
declare to_decimal.simps [simp del]

text \<open>
  The \<open>blockNumber\<close> argument of \<open>hashLeaf\<close> is documented as a Number and is
  passed the empty string by \<open>buildMerkleTree\<close>; \<open>js_to_string\<close> is the string
  that \<open>+\<close> concatenates for it (Numbers: natural numbers below \<open>10^21\<close>, which
  print as plain decimals).
\<close>

datatype js_value = JSString string | JSNumber nat

fun js_to_string :: "js_value \<Rightarrow> string" where
  "js_to_string (JSString s) = s"
| "js_to_string (JSNumber n) = to_decimal n"

subsection \<open>Buffers\<close>

type_synonym byte = "8 word"
type_synonym buffer = "byte list"

fun hex_value :: "char \<Rightarrow> nat option" where
  "hex_value c =
     (let n = (of_char c :: nat) in
      if 48 \<le> n \<and> n \<le> 57 then Some (n - 48)
      else if 97 \<le> n \<and> n \<le> 102 then Some (n - 87)
      else if 65 \<le> n \<and> n \<le> 70 then Some (n - 55)
      else None)"

declare hex_value.simps [simp del]

text \<open>\<open>Buffer.from(s, "hex")\<close>: pairs of hex digits, up to the first pair that is not one.\<close>

fun Buffer_from_hex :: "string \<Rightarrow> buffer" where
  "Buffer_from_hex (a # b # rest) =
     (case (hex_value a, hex_value b) of
        (Some x, Some y) \<Rightarrow> word_of_nat (16 * x + y) # Buffer_from_hex rest
      | _ \<Rightarrow> [])"
| "Buffer_from_hex _ = []"

text \<open>\<open>buffer.toString("hex")\<close>.\<close>

definition Buffer_toString_hex :: "buffer \<Rightarrow> string" where
  "Buffer_toString_hex b = concat (map (\<lambda>x. [digit_char (unat x div 16), digit_char (unat x mod 16)]) b)"

text \<open>\<open>Buffer.alloc(n)\<close>: \<open>n\<close> zero bytes.\<close>

definition Buffer_alloc :: "nat \<Rightarrow> buffer" where
  "Buffer_alloc n = replicate n 0"

text \<open>\<open>a.compare(b)\<close>: bytewise lexicographic order, a proper prefix first.\<close>

definition Buffer_compare :: "buffer \<Rightarrow> buffer \<Rightarrow> int" where
  "Buffer_compare a b = (if a < b then - 1 else if a = b then 0 else 1)"

subsection \<open>Errors\<close>

datatype error =
    BadAddress string
  | NotFound string
  | EmptyContents
  | NumberTooBig int
  | RangeError
  | TypeError
  | ReferenceError string
  | CachePruned

section \<open>member.js\<close>

record MonoplasmaMember =
  name :: string
  address :: string
  earnings :: int
  active :: bool

text \<open>
  \<open>isAddress\<close> is imported from the web3 library: the address matches
  \<open>/^(0x)?[0-9a-f]{40}$/i\<close>; an address whose digits are all lower case or all
  upper case is accepted as it is, a mixed-case address is accepted when its
  checksum holds. The checksum test needs keccak-256 and is the parameter
  \<open>checksum\<close>.
\<close>

definition hex_lower :: "char \<Rightarrow> bool" where
  "hex_lower c = (c \<in> set ''0123456789abcdef'')"

definition hex_upper :: "char \<Rightarrow> bool" where
  "hex_upper c = (c \<in> set ''0123456789ABCDEF'')"

definition address_digits :: "string \<Rightarrow> string option" where
  "address_digits s =
     (if length s = 40 then Some s
      else if length s = 42 \<and> (take 2 s = ''0x'' \<or> take 2 s = ''0X'') then Some (drop 2 s)
      else None)"

definition isAddress :: "(string \<Rightarrow> bool) \<Rightarrow> string \<Rightarrow> bool" where
  "isAddress checksum s =
     (case address_digits s of
        None \<Rightarrow> False
      | Some ds \<Rightarrow>
          if \<not> list_all (\<lambda>c. hex_lower c \<or> hex_upper c) ds then False
          else if list_all hex_lower ds \<or> list_all hex_upper ds then True
          else checksum s)"

definition validateAddress :: "(string \<Rightarrow> bool) \<Rightarrow> string \<Rightarrow> error + string" where
  "validateAddress checksum addr =
     (let extended = (if length addr = 40 then ''0x'' @ addr else addr)
      in if \<not> isAddress checksum extended then Inl (BadAddress addr) else Inr extended)"

text \<open>
  The constructor: \<open>earnings\<close> and \<open>active\<close> may be left out (\<open>None\<close>); the
  default of \<open>active\<close> is \<open>true\<close>.
\<close>

definition MonoplasmaMember_new ::
  "(string \<Rightarrow> bool) \<Rightarrow> string \<Rightarrow> string \<Rightarrow> int option \<Rightarrow> bool option \<Rightarrow> error + MonoplasmaMember" where
  "MonoplasmaMember_new checksum nm addr earn act =
     (case validateAddress checksum addr of
        Inl e \<Rightarrow> Inl e
      | Inr a \<Rightarrow> Inr \<lparr> name = nm, address = a, earnings = js_or0 earn,
                     active = (case act of None \<Rightarrow> True | Some b \<Rightarrow> b) \<rparr>)"

definition addRevenue :: "MonoplasmaMember \<Rightarrow> int \<Rightarrow> MonoplasmaMember" where
  "addRevenue m amount = m \<lparr> earnings := earnings m + amount \<rparr>"

text \<open>
  \<open>bn.toString(16, padding)\<close> of the BN library: the hex digits of the absolute
  value, zeros put in front while the length is not a multiple of the padding, and
  a minus sign in front of a negative number.
\<close>

function pad_zeros :: "nat \<Rightarrow> string \<Rightarrow> string" where
  "pad_zeros padding out =
     (if 0 < padding \<and> length out mod padding \<noteq> 0 then pad_zeros padding (CHR ''0'' # out) else out)"
  by pat_completeness auto
termination
proof (relation "measure (\<lambda>(padding, out). (padding - length out mod padding) mod padding)")
  show "wf (measure (\<lambda>(padding, out). (padding - length out mod padding) mod padding))"
    by simp
next
  fix padding :: nat and out :: string
  assume a: "0 < padding \<and> length out mod padding \<noteq> 0"
  define r where "r = length out mod padding"
  have r: "0 < r" "r < padding"
    using a by (simp_all add: r_def)
  have "Suc (length out) mod padding = (if Suc r = padding then 0 else Suc r)"
    unfolding r_def by (rule mod_Suc)
  then have "(padding - Suc (length out) mod padding) mod padding < (padding - r) mod padding"
    using r by auto
  then show "((padding, CHR ''0'' # out), (padding, out))
      \<in> measure (\<lambda>(padding, out). (padding - length out mod padding) mod padding)"
    by (simp add: r_def)
qed

declare pad_zeros.simps [simp del]

definition BN_toString16 :: "int \<Rightarrow> nat \<Rightarrow> string" where
  "BN_toString16 e padding =
     (let out = pad_zeros (if padding = 0 then 1 else padding) (to_hex (nat \<bar>e\<bar>))
      in if e < 0 then CHR ''-'' # out else out)"

definition toHashableString :: "MonoplasmaMember \<Rightarrow> string" where
  "toHashableString m = address m @ BN_toString16 (earnings m) 64"

section \<open>merkletree/api.js\<close>

text \<open>
  \<open>keccak256\<close> is imported from the ethers library and is a parameter of the
  model: it takes a string or a Buffer and returns the digest as a string of
  hex digits after \<open>0x\<close>.
\<close>

datatype js_data = Str string | Buf buffer

definition hash :: "(js_data \<Rightarrow> string) \<Rightarrow> js_data \<Rightarrow> buffer" where
  "hash keccak256 d = Buffer_from_hex (drop 2 (keccak256 d))"

text \<open>The constant \<open>data\<close> of \<open>hashLeaf\<close>.\<close>

definition hashLeaf_data :: "MonoplasmaMember \<Rightarrow> js_value \<Rightarrow> string" where
  "hashLeaf_data member blockNumber =
     js_to_string blockNumber @ address member @ BN_toString16 (earnings member) 64"

definition hashLeaf :: "(js_data \<Rightarrow> string) \<Rightarrow> MonoplasmaMember \<Rightarrow> js_value \<Rightarrow> buffer" where
  "hashLeaf keccak256 member blockNumber = hash keccak256 (Str (hashLeaf_data member blockNumber))"

definition as_buffer :: "js_data \<Rightarrow> buffer" where
  "as_buffer d =
     (case d of
        Str s \<Rightarrow> Buffer_from_hex (if take 2 s = ''0x'' then drop 2 s else s)
      | Buf b \<Rightarrow> b)"

definition hashCombined :: "(js_data \<Rightarrow> string) \<Rightarrow> js_data \<Rightarrow> js_data \<Rightarrow> buffer" where
  "hashCombined keccak256 data1 data2 = hash keccak256 (Buf (as_buffer data1 @ as_buffer data2))"

definition MAX_POW_2 :: int where
  "MAX_POW_2 = 2 ^ 32"

text \<open>
  The loop \<open>while (i < x) { i <<= 1 }\<close>; a run that never ends is \<open>None\<close>.
\<close>

partial_function (option) roundUp_loop :: "int \<Rightarrow> int \<Rightarrow> int option" where
  "roundUp_loop i x = (if i < x then roundUp_loop (js_shl i 1) x else Some i)"

declare roundUp_loop.simps [code]

definition roundUpToPowerOfTwo :: "int \<Rightarrow> (error + int) option" where
  "roundUpToPowerOfTwo x =
     (if x > MAX_POW_2 then Some (Inl (NumberTooBig x))
      else map_option Inr (roundUp_loop 1 x))"

text \<open>
  An element of the array \<open>hashes\<close>: an empty slot, the number at index 0, or a
  digest. The array is a map from indices, so a read outside what was written
  is \<open>undefined\<close> and a write extends it.
\<close>

datatype slot = Undefined | Num int | Hash buffer

fun falsy :: "slot \<Rightarrow> bool" where
  "falsy Undefined = True"
| "falsy (Num n) = (n = 0)"
| "falsy (Hash b) = False"

record tree =
  hashes :: "int \<Rightarrow> slot"
  indexOf :: "string \<rightharpoonup> int"

text \<open>The body of \<open>leafContents.forEach\<close>, on the variables \<open>hashes\<close>, \<open>indexOf\<close> and \<open>i\<close>.\<close>

definition leaf_step ::
  "(js_data \<Rightarrow> string) \<Rightarrow> MonoplasmaMember \<Rightarrow> (int \<Rightarrow> slot) \<times> (string \<rightharpoonup> int) \<times> int
     \<Rightarrow> (int \<Rightarrow> slot) \<times> (string \<rightharpoonup> int) \<times> int" where
  "leaf_step keccak256 m st =
     (case st of (h, ix, i) \<Rightarrow>
        (h(i := Hash (hashLeaf keccak256 m (JSString ''''))), ix(address m \<mapsto> i), i + 1))"

text \<open>
  The parent of two present children:
  \<open>(hash1.compare(hash2) === -1) ? hashCombined(hash1, hash2) : hashCombined(hash2, hash1)\<close>.
  Only a Buffer has \<open>compare\<close>.
\<close>

fun parent_hash :: "(js_data \<Rightarrow> string) \<Rightarrow> slot \<Rightarrow> slot \<Rightarrow> error + buffer" where
  "parent_hash keccak256 (Hash hash1) (Hash hash2) =
     Inr (if Buffer_compare hash1 hash2 = - 1
          then hashCombined keccak256 (Buf hash1) (Buf hash2)
          else hashCombined keccak256 (Buf hash2) (Buf hash1))"
| "parent_hash keccak256 _ _ = Inl TypeError"

text \<open>The inner loop \<open>while (sourceI < endI)\<close>, over one level of the tree.\<close>

function level_loop ::
  "(js_data \<Rightarrow> string) \<Rightarrow> (int \<Rightarrow> slot) \<Rightarrow> int \<Rightarrow> int \<Rightarrow> int \<Rightarrow> error + (int \<Rightarrow> slot)" where
  "level_loop keccak256 h sourceI targetI endI =
     (if sourceI < endI then
        (if falsy (h sourceI) then Inr h
         else if falsy (h (sourceI + 1))
           then Inr (h(sourceI + 1 := Hash (Buffer_alloc 32), targetI := h sourceI))
         else (case parent_hash keccak256 (h sourceI) (h (sourceI + 1)) of
                 Inl e \<Rightarrow> Inl e
               | Inr p \<Rightarrow> level_loop keccak256 (h(targetI := Hash p)) (sourceI + 2) (targetI + 1) endI))
      else Inr h)"
  by pat_completeness auto
termination
  by (relation "measure (\<lambda>(k, h, sourceI, targetI, endI). nat (endI - sourceI))") auto

declare level_loop.simps [simp del]

text \<open>The outer loop \<open>for (startI = branchCount, endI = treeSize; startI > 1; endI = startI, startI >>= 1)\<close>.\<close>

function levels ::
  "(js_data \<Rightarrow> string) \<Rightarrow> (int \<Rightarrow> slot) \<Rightarrow> int \<Rightarrow> int \<Rightarrow> error + (int \<Rightarrow> slot)" where
  "levels keccak256 h startI endI =
     (if startI > 1 then
        (case level_loop keccak256 h startI (js_sar startI 1) endI of
           Inl e \<Rightarrow> Inl e
         | Inr h' \<Rightarrow> levels keccak256 h' (js_sar startI 1) startI)
      else Inr h)"
  by pat_completeness auto
termination
  by (relation "measure (\<lambda>(k, h, startI, endI). nat startI)") (auto simp: js_sar_less)

declare levels.simps [simp del]

text \<open>
  \<open>new Array(treeSize)\<close> raises a RangeError unless the size is an array length.
\<close>

definition buildMerkleTree :: "(js_data \<Rightarrow> string) \<Rightarrow> MonoplasmaMember list \<Rightarrow> (error + tree) option" where
  "buildMerkleTree keccak256 leafContents =
     (let leafCount = int (length leafContents) + int (length leafContents) mod 2
      in case roundUpToPowerOfTwo leafCount of
           None \<Rightarrow> None
         | Some (Inl e) \<Rightarrow> Some (Inl e)
         | Some (Inr branchCount) \<Rightarrow>
             (let treeSize = branchCount + leafCount
              in if treeSize < 0 \<or> 2 ^ 32 \<le> treeSize then Some (Inl RangeError)
                 else
                   (case fold (leaf_step keccak256) leafContents
                           ((\<lambda>_. Undefined)(0 := Num branchCount), Map.empty, branchCount) of
                      (h, ix, i) \<Rightarrow>
                        (case levels keccak256 h branchCount treeSize of
                           Inl e \<Rightarrow> Some (Inl e)
                         | Inr h' \<Rightarrow> Some (Inr \<lparr> hashes = h', indexOf = ix \<rparr>)))))"

subsection \<open>The class MerkleTree\<close>

record MerkleTree =
  contents :: "MonoplasmaMember list"
  isDirty :: bool
  cached :: "tree option"



text \<open>
  The methods return their result, or the error they raise, with the object as
  they leave it; \<open>None\<close> is a call that never returns.
\<close>

definition getContents ::
  "(js_data \<Rightarrow> string) \<Rightarrow> MerkleTree \<Rightarrow> ((error + tree option) \<times> MerkleTree) option" where
  "getContents keccak256 t =
     (if length (contents t) = 0 then Some (Inl EmptyContents, t)
      else if isDirty t then
        (case buildMerkleTree keccak256 (contents t) of
           None \<Rightarrow> None
         | Some (Inl e) \<Rightarrow> Some (Inl e, t)
         | Some (Inr b) \<Rightarrow> Some (Inr (Some b), t \<lparr> cached := Some b, isDirty := False \<rparr>))
      else Some (Inr (cached t), t))"

definition MerkleTree_includes :: "MerkleTree \<Rightarrow> string \<Rightarrow> MonoplasmaMember option" where
  "MerkleTree_includes t addr = find (\<lambda>m. address m = addr) (contents t)"



text \<open>
  \<open>`0x${buffer.toString("hex")}`\<close>: an empty slot has no \<open>toString\<close>, and a
  Number has no radix \<open>"hex"\<close>.
\<close>

fun slot_hex :: "slot \<Rightarrow> error + string" where
  "slot_hex (Hash b) = Inr (''0x'' @ Buffer_toString_hex b)"
| "slot_hex Undefined = Inl TypeError"
| "slot_hex (Num n) = Inl RangeError"




definition getRootHash ::
  "(js_data \<Rightarrow> string) \<Rightarrow> MerkleTree \<Rightarrow> ((error + string) \<times> MerkleTree) option" where
  "getRootHash keccak256 t =
     (case getContents keccak256 t of
        None \<Rightarrow> None
      | Some (Inl e, t') \<Rightarrow> Some (Inl e, t')
      | Some (Inr None, t') \<Rightarrow> Some (Inl TypeError, t')
      | Some (Inr (Some b), t') \<Rightarrow> Some (slot_hex (hashes b 1), t'))"

subsection \<open>member.js: the proof of a member\<close>


section \<open>watcher.js and the communities router: block summaries\<close>

record block =
  blk_blockNumber :: "int option"
  blk_timestamp :: "int option"
  blk_members :: "MonoplasmaMember list option"
  blk_totalEarnings :: "int option"

record BlockSummary =
  blockNumber :: int
  timestamp :: int
  memberCount :: int
  totalEarnings :: int

text \<open>
  The argument is \<open>None\<close> for \<open>null\<close> or \<open>undefined\<close>. The first line replaces
  such a block, and a block without members, by \<open>{ members: [] }\<close>.
\<close>

definition no_members_block :: block where
  "no_members_block =
     \<lparr> blk_blockNumber = None, blk_timestamp = None, blk_members = Some [], blk_totalEarnings = None \<rparr>"

definition summarizeBlock :: "block option \<Rightarrow> BlockSummary" where
  "summarizeBlock b0 =
     (let b = (case b0 of
                 None \<Rightarrow> no_members_block
               | Some b1 \<Rightarrow> (case blk_members b1 of None \<Rightarrow> no_members_block | Some _ \<Rightarrow> b1))
      in \<lparr> blockNumber = js_or0 (blk_blockNumber b),
           timestamp = js_or0 (blk_timestamp b),
           memberCount = int (length (the (blk_members b))),
           totalEarnings = js_or0 (blk_totalEarnings b) \<rparr>)"

definition blockToApiObject :: "block option \<Rightarrow> BlockSummary" where
  "blockToApiObject b0 =
     (let b = (case b0 of
                 None \<Rightarrow> no_members_block
               | Some b1 \<Rightarrow> (case blk_members b1 of None \<Rightarrow> no_members_block | Some _ \<Rightarrow> b1))
      in \<lparr> blockNumber = js_or0 (blk_blockNumber b),
           timestamp = js_or0 (blk_timestamp b),
           memberCount = int (length (the (blk_members b))),
           totalEarnings = js_or0 (blk_totalEarnings b) \<rparr>)"

section \<open>watcher.js: playback and cache pruning\<close>

text \<open>
  Of the state object (state.js) the watcher reads and writes \<open>currentBlock\<close>
  and \<open>currentTimestamp\<close>; the members and blocks it holds are \<open>ledger\<close>.
\<close>

record 's MonoplasmaState =
  currentBlock :: "int option"
  currentTimestamp :: "int option"
  ledger :: 's

record message =
  msg_type :: string
  addressList :: "string list"
  msg_timestamp :: int

record 's MonoplasmaWatcher =
  messageCache :: "message list"
  cachePrunedUpTo :: "int option"
  plasma :: "'s MonoplasmaState"

datatype 'a outcome = Returned 'a | Threw error

text \<open>
  \<open>playbackUntilBlock(toBlock, plasma)\<close>. The argument \<open>plasma\<close> may be left out
  (\<open>None\<close>): the watcher's own state is then played on. The result is the outcome
  of the call, the watcher and the state played on as the call leaves them.

  The message of the Error that the pruning test builds reads \<open>toTimestamp\<close>, which is
  a \<open>const\<close> declared on the line after the test, so building the message raises a
  ReferenceError and the Error is never made.

  What follows the two tests (reading the logs of the chain, merging them with the
  cached messages and replaying them on the state) is done by modules that are not
  among the sources; it is the parameter \<open>replay\<close>, given the watcher, the state,
  \<open>fromBlock\<close>, \<open>fromTimestamp\<close> and \<open>toBlock\<close>.
\<close>

definition playbackUntilBlock ::
  "('s MonoplasmaWatcher \<Rightarrow> 's MonoplasmaState \<Rightarrow> int \<Rightarrow> int \<Rightarrow> int
      \<Rightarrow> 'r option outcome \<times> 's MonoplasmaWatcher \<times> 's MonoplasmaState)
   \<Rightarrow> 's MonoplasmaWatcher \<Rightarrow> int \<Rightarrow> 's MonoplasmaState option
   \<Rightarrow> 'r option outcome \<times> 's MonoplasmaWatcher \<times> 's MonoplasmaState" where
  "playbackUntilBlock replay w toBlock plasma_arg =
     (let p = (case plasma_arg of None \<Rightarrow> plasma w | Some q \<Rightarrow> q);
          fromBlock = js_or0 (map_option (\<lambda>b. b + 1) (currentBlock p));
          fromTimestamp = js_or0 (currentTimestamp p)
      in if toBlock \<le> fromBlock then (Returned None, w, p)
         else if js_lt fromTimestamp (cachePrunedUpTo w)
           then (Threw (ReferenceError ''toTimestamp''), w, p)
         else replay w p fromBlock fromTimestamp toBlock)"

text \<open>
  \<open>channelPruneCache()\<close>; \<open>bisectFindFirstIndex\<close> is not among the sources and is the
  parameter \<open>bisect\<close>.
\<close>

definition channelPruneCache ::
  "(message list \<Rightarrow> (message \<Rightarrow> bool) \<Rightarrow> nat) \<Rightarrow> 's MonoplasmaWatcher \<Rightarrow> 's MonoplasmaWatcher" where
  "channelPruneCache bisect w =
     (let lastRemovedTimestamp = currentTimestamp (plasma w);
          keepIndex = bisect (messageCache w) (\<lambda>msg. js_gt (msg_timestamp msg) lastRemovedTimestamp)
      in w \<lparr> messageCache := drop keepIndex (messageCache w),
             cachePrunedUpTo := lastRemovedTimestamp \<rparr>)"

text \<open>The watcher as its constructor leaves it, with a state.\<close>

definition MonoplasmaWatcher_new :: "'s MonoplasmaState \<Rightarrow> 's MonoplasmaWatcher" where
  "MonoplasmaWatcher_new p = \<lparr> messageCache = [], cachePrunedUpTo = Some 0, plasma = p \<rparr>"

section \<open>The leaf encoding in the specification's words\<close>

text \<open>
  The specification's \<open>hex64(E)\<close>: \<open>E\<close> as 64 hex digits, zeros on the left; its
  \<open>ascii(A)\<close>: the lower-case form of the address; and the string it says is hashed
  for a leaf.
\<close>

definition to_lower_char :: "char \<Rightarrow> char" where
  "to_lower_char c =
     (let n = (of_char c :: nat) in if 65 \<le> n \<and> n \<le> 90 then char_of (n + 32) else c)"




text \<open>A digest function that tells one string from every other input.\<close>

definition two_valued_digest :: "string \<Rightarrow> js_data \<Rightarrow> string" where
  "two_valued_digest s d = (if d = Str s then ''0x00'' else ''0x11'')"

section \<open>Three members\<close>




section \<open>Hex digits\<close>













section \<open>Addresses\<close>

lemma isAddress_length: "isAddress checksum s \<Longrightarrow> length s = 40 \<or> length s = 42"
  by (auto simp: isAddress_def address_digits_def split: option.splits if_splits)

lemma validateAddress_eq:
  "validateAddress checksum a =
     (if isAddress checksum (if length a = 40 then ''0x'' @ a else a)
      then Inr (if length a = 40 then ''0x'' @ a else a) else Inl (BadAddress a))"
  by (simp add: validateAddress_def Let_def)

lemma validateAddress_length: "validateAddress checksum a = Inr x \<Longrightarrow> length x = 42"
  using isAddress_length [of checksum a]
  by (auto simp: validateAddress_eq split: if_splits)

section \<open>Rounding up to a power of two\<close>

lemma roundUp_loop_zero:
  assumes "0 < x"
  shows "roundUp_loop 0 x = None"
proof (rule ccontr)
  assume "roundUp_loop 0 x \<noteq> None"
  then obtain y where y: "roundUp_loop 0 x = Some y"
    by auto
  have step: "\<not> (i = 0 \<and> 0 < x')"
    if "\<And>i x y. f i x = Some y \<Longrightarrow> \<not> (i = 0 \<and> 0 < x)"
      and "(if i < x' then f (js_shl i 1) x' else Some i) = Some y'"
    for f :: "int \<Rightarrow> int \<Rightarrow> int option" and i x' y'
  proof
    assume a: "i = 0 \<and> 0 < x'"
    have "js_shl 0 1 = 0"
      by (simp add: js_shl_def)
    then have "f 0 x' = Some y'"
      using that(2) a by simp
    then show False
      using that(1) a by blast
  qed
  have "(case (0::int, x) of (i, x) \<Rightarrow> \<lambda>y. \<not> (i = 0 \<and> 0 < x)) y"
  proof (rule roundUp_loop.raw_induct [where P = "\<lambda>i x y. \<not> (i = 0 \<and> 0 < x)"])
    show "(case (0, x) of (i, x) \<Rightarrow> roundUp_loop i x) = Some y"
      using y by simp
  next
    fix f :: "int \<Rightarrow> int \<Rightarrow> int option" and i x' y'
    assume "\<And>i x y. f i x = Some y \<Longrightarrow> \<not> (i = 0 \<and> 0 < x)"
      and "(if i < x' then f (js_shl i 1) x' else Some i) = Some y'"
    then show "\<not> (i = 0 \<and> 0 < x')"
      by (rule step)
  qed
  then have "\<not> 0 < x"
    by simp
  then show False
    using y assms by blast
qed

lemma roundUp_loop_step:
  "k < 30 \<Longrightarrow> 2 ^ k < x \<Longrightarrow> roundUp_loop (2 ^ k) x = roundUp_loop (2 ^ Suc k) x"
proof -
  assume k: "k < 30" and x: "2 ^ k < x"
  have "(2::int) ^ k < 2 ^ 30"
    by (rule power_strict_increasing) (use k in auto)
  then have "js_shl (2 ^ k) (Suc 0) = 2 * 2 ^ k"
    by (intro js_shl_small) auto
  then show ?thesis
    using x by (subst roundUp_loop.simps) simp
qed

lemma roundUp_loop_climb:
  "k \<le> 30 \<Longrightarrow> 2 ^ 30 < x \<Longrightarrow> roundUp_loop (2 ^ k) x = roundUp_loop (2 ^ 30) x"
proof (induction "30 - k" arbitrary: k)
  case 0
  then show ?case by simp
next
  case (Suc d)
  then have k: "k < 30" by simp
  have "(2::int) ^ k < 2 ^ 30"
    by (rule power_strict_increasing) (use k in auto)
  then have "roundUp_loop (2 ^ k) x = roundUp_loop (2 ^ Suc k) x"
    using Suc.prems k by (intro roundUp_loop_step) auto
  also have "\<dots> = roundUp_loop (2 ^ 30) x"
    using Suc k by (intro Suc.hyps(1)) auto
  finally show ?case .
qed

lemma roundUp_loop_diverges:
  assumes "2 ^ 30 < x"
  shows "roundUp_loop 1 x = None"
proof -
  have a: "js_shl (2 ^ 30) 1 = - (2 ^ 31)"
    by (simp add: js_shl_def)
  have b: "js_shl (- (2 ^ 31)) 1 = 0"
    by (simp add: js_shl_def)
  have "roundUp_loop 1 x = roundUp_loop (2 ^ 30) x"
    using roundUp_loop_climb [of 0 x] assms by simp
  also have "\<dots> = roundUp_loop (- (2 ^ 31)) x"
    using assms a by (subst roundUp_loop.simps) simp
  also have "\<dots> = roundUp_loop 0 x"
    using assms b by (subst roundUp_loop.simps) simp
  also have "\<dots> = None"
    using assms by (intro roundUp_loop_zero) simp
  finally show ?thesis .
qed



lemma roundUpToPowerOfTwo_diverges:
  assumes "2 ^ 30 < x" and "x \<le> 2 ^ 32"
  shows "roundUpToPowerOfTwo x = None"
  using assms by (simp add: roundUpToPowerOfTwo_def MAX_POW_2_def roundUp_loop_diverges)

section \<open>The levels of the tree\<close>


lemma pow2_int_bounds:
  fixes d :: nat
  assumes "d \<le> 30"
  shows "(2::int) ^ d \<le> 2 ^ 30" "(1::int) \<le> 2 ^ d"
proof -
  show "(2::int) ^ d \<le> 2 ^ 30"
    by (rule power_increasing) (use assms in auto)
  show "(1::int) \<le> 2 ^ d"
    by simp
qed




section \<open>The leaves and the whole tree\<close>



text \<open>A longer list: the loop of \<open>roundUpToPowerOfTwo\<close> never ends, or its guard raises.\<close>

lemma buildMerkleTree_diverges:
  assumes a: "2 ^ 30 < int (length ms)" "int (length ms) < 2 ^ 32"
  shows "buildMerkleTree k ms = None"
proof -
  have m: "int (length ms) mod 2 = 0 \<or> int (length ms) mod 2 = 1"
    by presburger
  have "2 ^ 30 < int (length ms) + int (length ms) mod 2"
    "int (length ms) + int (length ms) mod 2 \<le> 2 ^ 32"
    using a m by auto
  then have "roundUpToPowerOfTwo (int (length ms) + int (length ms) mod 2) = None"
    by (rule roundUpToPowerOfTwo_diverges)
  then show ?thesis
    by (simp add: buildMerkleTree_def Let_def)
qed




section \<open>Paths\<close>








text \<open>
  C2. When the loop of \<open>buildMerkleTree\<close> finds two digests \<open>L\<close> and \<open>R\<close> at
  \<open>sourceI\<close> and \<open>sourceI + 1\<close>, the parent it stores at \<open>targetI\<close> is the hash of the
  smaller of the two followed by the greater, in the lexicographic order of the bytes,
  and it goes on with the next pair. The parent of \<open>L\<close> and \<open>R\<close> is the parent of
  \<open>R\<close> and \<open>L\<close>.
\<close>

theorem parent_hash_sorted_pair:
  "parent_hash keccak256 (Hash L) (Hash R) = Inr (hash keccak256 (Buf (min L R @ max L R)))
   \<and> parent_hash keccak256 (Hash L) (Hash R) = parent_hash keccak256 (Hash R) (Hash L)
   \<and> (L < R) = ((L, R) \<in> lexord {(u, v). u < v})
   \<and> (sourceI < endI \<and> h sourceI = Hash L \<and> h (sourceI + 1) = Hash R \<longrightarrow>
        level_loop keccak256 h sourceI targetI endI
        = level_loop keccak256 (h(targetI := Hash (hash keccak256 (Buf (min L R @ max L R)))))
            (sourceI + 2) (targetI + 1) endI)"
proof -
  have a: "parent_hash keccak256 (Hash L) (Hash R) = Inr (hash keccak256 (Buf (min L R @ max L R)))" for L R
    by (auto simp: Buffer_compare_def hashCombined_def as_buffer_def min_def max_def)
  have b: "parent_hash keccak256 (Hash L) (Hash R) = parent_hash keccak256 (Hash R) (Hash L)"
    unfolding a by (simp add: min.commute max.commute)
  have c: "(L < R) = ((L, R) \<in> lexord {(u, v). u < v})"
    by (simp add: list_less_def)
  have d: "level_loop keccak256 h sourceI targetI endI
        = level_loop keccak256 (h(targetI := Hash (hash keccak256 (Buf (min L R @ max L R)))))
            (sourceI + 2) (targetI + 1) endI"
    if "sourceI < endI" "h sourceI = Hash L" "h (sourceI + 1) = Hash R"
    using that by (subst level_loop.simps) (simp add: a del: parent_hash.simps)
  show ?thesis
    using a b c d by blast
qed

theorem parent_hash_sorted_pair_witness:
  "(0::int) < 4 \<and> ((\<lambda>_::int. Undefined)(2 := Hash [1, 2], 3 := Hash [1, 1])) 2 = Hash [1, 2]
   \<and> ((\<lambda>_::int. Undefined)(2 := Hash [1, 2], 3 := Hash [1, 1])) (2 + 1) = Hash [1, 1]
   \<and> parent_hash (two_valued_digest '''') (Hash [1, 2]) (Hash [1, 1]) = Inr [17]
   \<and> min [1, 2 :: byte] [1, 1] @ max [1, 2] [1, 1] = [1, 1, 1, 2]
   \<and> level_loop (two_valued_digest '''') ((\<lambda>_::int. Undefined)(2 := Hash [1, 2], 3 := Hash [1, 1])) 2 1 4
     = level_loop (two_valued_digest '''')
         ((\<lambda>_::int. Undefined)(2 := Hash [1, 2], 3 := Hash [1, 1], 1 := Hash [17])) (2 + 2) (1 + 1) 4"
  using parent_hash_sorted_pair [of "two_valued_digest ''''" "[1, 2]" "[1, 1]" 2 4
      "(\<lambda>_::int. Undefined)(2 := Hash [1, 2], 3 := Hash [1, 1])" 1]
  by (simp add: hash_def two_valued_digest_def hex_value.simps Buffer_compare_def
      hashCombined_def as_buffer_def)

lemma earnings_foldl_addRevenue:
  "earnings (foldl addRevenue m amounts) = earnings m + sum_list amounts"
  by (induction amounts arbitrary: m) (simp_all add: addRevenue_def)

text \<open>
  C3 (as amended). \<open>addRevenue\<close> never raises: for every amount, a negative one too, the
  earnings become the earnings plus the amount and nothing else of the member changes.
  Over a sequence of calls whose amounts are all non-negative the earnings do not
  decrease.
\<close>

theorem addRevenue_adds_amount:
  "addRevenue m amount = m \<lparr> earnings := earnings m + amount \<rparr>
   \<and> (list_all (\<lambda>a. 0 \<le> a) amounts \<longrightarrow>
        earnings m \<le> earnings (foldl addRevenue m amounts))"
proof -
  have "list_all (\<lambda>a. 0 \<le> a) amounts \<Longrightarrow> 0 \<le> sum_list amounts"
    by (induction amounts) simp_all
  then show ?thesis
    by (simp add: addRevenue_def earnings_foldl_addRevenue)
qed

theorem addRevenue_adds_amount_witness:
  "addRevenue \<lparr> name = '''', address = ''0xaaaaaaaaaaaaaaaaaaaaaaaaaaaaaaaaaaaaaaaa'', earnings = 10, active = True \<rparr> 5
     = \<lparr> name = '''', address = ''0xaaaaaaaaaaaaaaaaaaaaaaaaaaaaaaaaaaaaaaaa'', earnings = 15, active = True \<rparr>
   \<and> list_all (\<lambda>a. 0 \<le> a) [5, 0, 7 :: int]
   \<and> (10 :: int) \<le> earnings (foldl addRevenue
         \<lparr> name = '''', address = ''0xaaaaaaaaaaaaaaaaaaaaaaaaaaaaaaaaaaaaaaaa'', earnings = 10, active = True \<rparr> [5, 0, 7])"
  using addRevenue_adds_amount
    [of "\<lparr> name = '''', address = ''0xaaaaaaaaaaaaaaaaaaaaaaaaaaaaaaaaaaaaaaaa'', earnings = 10, active = True \<rparr>" 5 "[5, 0, 7]"]
  by (simp add: addRevenue_def)

text \<open>
  The claim as stated fails: a negative amount raises nothing, and the earnings go
  down from 10 to 7.
\<close>

theorem addRevenue_negative_counterexample:
  "addRevenue \<lparr> name = '''', address = ''0xaaaaaaaaaaaaaaaaaaaaaaaaaaaaaaaaaaaaaaaa'', earnings = 10, active = True \<rparr> (- 3)
     = \<lparr> name = '''', address = ''0xaaaaaaaaaaaaaaaaaaaaaaaaaaaaaaaaaaaaaaaa'', earnings = 7, active = True \<rparr>
   \<and> earnings (addRevenue \<lparr> name = '''', address = ''0xaaaaaaaaaaaaaaaaaaaaaaaaaaaaaaaaaaaaaaaa'', earnings = 10, active = True \<rparr> (- 3))
       < earnings \<lparr> name = '''', address = ''0xaaaaaaaaaaaaaaaaaaaaaaaaaaaaaaaaaaaaaaaa'', earnings = 10, active = True \<rparr>"
  by (simp add: addRevenue_def)

text \<open>
  C4. For a list of \<open>2^30 + 1\<close> members \<open>leafCount\<close> is \<open>2^30 + 2\<close>, which the guard of
  \<open>roundUpToPowerOfTwo\<close> lets through; the loop then shifts \<open>i\<close> from \<open>2^30\<close> to
  \<open>-2^31\<close> and to 0, where it stays: \<open>buildMerkleTree\<close> neither rejects the list nor
  returns. The same holds for \<open>2^31 + 1\<close> members, whose \<open>leafCount\<close> exceeds \<open>2^31\<close>.
\<close>

theorem buildMerkleTree_never_returns:
  "buildMerkleTree keccak256 (replicate (2 ^ 30 + 1) m) = None
   \<and> buildMerkleTree keccak256 (replicate (2 ^ 31 + 1) m) = None
   \<and> roundUpToPowerOfTwo (2 ^ 30 + 2) = None
   \<and> roundUpToPowerOfTwo (2 ^ 32 + 2) = Some (Inl (NumberTooBig (2 ^ 32 + 2)))"
proof -
  have "buildMerkleTree keccak256 (replicate (2 ^ 30 + 1) m) = None"
    by (rule buildMerkleTree_diverges) simp_all
  moreover have "buildMerkleTree keccak256 (replicate (2 ^ 31 + 1) m) = None"
    by (rule buildMerkleTree_diverges) simp_all
  moreover have "roundUpToPowerOfTwo (2 ^ 30 + 2) = None"
    by (rule roundUpToPowerOfTwo_diverges) simp_all
  moreover have "roundUpToPowerOfTwo (2 ^ 32 + 2) = Some (Inl (NumberTooBig (2 ^ 32 + 2)))"
    by (simp add: roundUpToPowerOfTwo_def MAX_POW_2_def)
  ultimately show ?thesis
    by simp
qed

text \<open>
  C5 (as amended). The constructor keeps the spelling of the address it is given: it
  only puts \<open>0x\<close> in front of an address of 40 characters, and raises the bad-address
  error exactly when \<open>isAddress\<close> rejects the result. The address of a member has 42
  characters. No conversion to the checksummed form takes place.
\<close>

theorem constructor_keeps_address_spelling:
  "(MonoplasmaMember_new checksum nm a earn act = Inr m \<longrightarrow>
      isAddress checksum (address m)
      \<and> address m = (if length a = 40 then ''0x'' @ a else a)
      \<and> length (address m) = 42)
   \<and> (\<not> isAddress checksum (if length a = 40 then ''0x'' @ a else a) \<longrightarrow>
      MonoplasmaMember_new checksum nm a earn act = Inl (BadAddress a))
   \<and> (isAddress checksum (if length a = 40 then ''0x'' @ a else a) \<longrightarrow>
      (\<exists>m'. MonoplasmaMember_new checksum nm a earn act = Inr m'))"
proof -
  have "length (if length a = 40 then ''0x'' @ a else a) = 42"
    if "isAddress checksum (if length a = 40 then ''0x'' @ a else a)"
    using validateAddress_length [of checksum a] that by (simp add: validateAddress_eq)
  then show ?thesis
    by (auto simp: MonoplasmaMember_new_def validateAddress_eq split: if_splits)
qed

theorem constructor_keeps_address_spelling_witness:
  "MonoplasmaMember_new (\<lambda>_. False) ''alice'' ''aaaaaaaaaaaaaaaaaaaaaaaaaaaaaaaaaaaaaaaa'' (Some 5) None
     = Inr \<lparr> name = ''alice'', address = ''0xaaaaaaaaaaaaaaaaaaaaaaaaaaaaaaaaaaaaaaaa'', earnings = 5, active = True \<rparr>
   \<and> isAddress (\<lambda>_. False) ''0xaaaaaaaaaaaaaaaaaaaaaaaaaaaaaaaaaaaaaaaa''
   \<and> \<not> isAddress (\<lambda>_. False) ''0xaaaaaaaaaaaaaaaaaaaaaaaaaaaaaaaaaaaaaaag''
   \<and> MonoplasmaMember_new (\<lambda>_. False) ''bob'' ''0xaaaaaaaaaaaaaaaaaaaaaaaaaaaaaaaaaaaaaaag'' None None
     = Inl (BadAddress ''0xaaaaaaaaaaaaaaaaaaaaaaaaaaaaaaaaaaaaaaag'')"
  using constructor_keeps_address_spelling [of "\<lambda>_. False" "''alice''" "''aaaaaaaaaaaaaaaaaaaaaaaaaaaaaaaaaaaaaaaa''" "Some 5" None
      "\<lparr> name = ''alice'', address = ''0xaaaaaaaaaaaaaaaaaaaaaaaaaaaaaaaaaaaaaaaa'', earnings = 5, active = True \<rparr>"]
    constructor_keeps_address_spelling [of "\<lambda>_. False" "''0xaaaaaaaaaaaaaaaaaaaaaaaaaaaaaaaaaaaaaaag''" "''bob''" None None]
  by (simp add: MonoplasmaMember_new_def validateAddress_def isAddress_def address_digits_def
      hex_lower_def hex_upper_def js_or0_def)

text \<open>
  The claim as stated fails: the lower-case and the upper-case spelling of the same 20
  bytes are both accepted, and the two members have different \<open>address\<close> fields.
\<close>

theorem constructor_two_spellings_counterexample:
  "MonoplasmaMember_new (\<lambda>_. False) '''' ''0xaaaaaaaaaaaaaaaaaaaaaaaaaaaaaaaaaaaaaaaa'' None None
     = Inr \<lparr> name = '''', address = ''0xaaaaaaaaaaaaaaaaaaaaaaaaaaaaaaaaaaaaaaaa'', earnings = 0, active = True \<rparr>
   \<and> MonoplasmaMember_new (\<lambda>_. False) '''' ''0xAAAAAAAAAAAAAAAAAAAAAAAAAAAAAAAAAAAAAAAA'' None None
     = Inr \<lparr> name = '''', address = ''0xAAAAAAAAAAAAAAAAAAAAAAAAAAAAAAAAAAAAAAAA'', earnings = 0, active = True \<rparr>
   \<and> map to_lower_char ''0xAAAAAAAAAAAAAAAAAAAAAAAAAAAAAAAAAAAAAAAA'' = ''0xaaaaaaaaaaaaaaaaaaaaaaaaaaaaaaaaaaaaaaaa''
   \<and> ''0xaaaaaaaaaaaaaaaaaaaaaaaaaaaaaaaaaaaaaaaa'' \<noteq> ''0xAAAAAAAAAAAAAAAAAAAAAAAAAAAAAAAAAAAAAAAA''"
proof -
  have "map to_lower_char ''0xAAAAAAAAAAAAAAAAAAAAAAAAAAAAAAAAAAAAAAAA'' = ''0xaaaaaaaaaaaaaaaaaaaaaaaaaaaaaaaaaaaaaaaa''"
    by code_simp
  then show ?thesis
    by (simp add: MonoplasmaMember_new_def validateAddress_def isAddress_def address_digits_def
        hex_lower_def hex_upper_def js_or0_def)
qed

lemma playback_pruned_raises:
  assumes "js_or0 (map_option (\<lambda>b. b + 1) (currentBlock p)) < toBlock"
    and "cachePrunedUpTo w = Some T"
    and "js_or0 (currentTimestamp p) < T"
  shows "playbackUntilBlock replay w toBlock (Some p) = (Threw (ReferenceError ''toTimestamp''), w, p)"
  using assms by (simp add: playbackUntilBlock_def js_lt_def Let_def)

text \<open>
  C6. A watcher whose state stands at time 5000 prunes its cache; a playback to block 10
  is then asked for a state that stands at block 0 and time 3000. The call raises, and
  the watcher and the state are as before; but what it raises is the ReferenceError for
  \<open>toTimestamp\<close>, not the error that says the cache has been pruned.
\<close>

theorem playback_after_prune_ReferenceError:
  "playbackUntilBlock replay
     (channelPruneCache bisect
        (MonoplasmaWatcher_new \<lparr> currentBlock = Some 0, currentTimestamp = Some 5000, ledger = l \<rparr>))
     10 (Some \<lparr> currentBlock = Some 0, currentTimestamp = Some 3000, ledger = l' \<rparr>)
   = (Threw (ReferenceError ''toTimestamp''),
      channelPruneCache bisect
        (MonoplasmaWatcher_new \<lparr> currentBlock = Some 0, currentTimestamp = Some 5000, ledger = l \<rparr>),
      \<lparr> currentBlock = Some 0, currentTimestamp = Some 3000, ledger = l' \<rparr>)
   \<and> Threw (ReferenceError ''toTimestamp'') \<noteq> (Threw CachePruned :: 'r option outcome)"
  by (simp add: playbackUntilBlock_def channelPruneCache_def MonoplasmaWatcher_new_def js_lt_def
      js_or0_def Let_def)







text \<open>
  C10. \<open>summarizeBlock\<close> and \<open>blockToApiObject\<close> are the same total function. For
  \<open>null\<close> or \<open>undefined\<close> and for a block without \<open>members\<close> the summary is all
  zeros; for a block with members each of \<open>blockNumber\<close>, \<open>timestamp\<close> and
  \<open>totalEarnings\<close> is the field, or 0 when the field is missing, and \<open>memberCount\<close>
  is the length of \<open>members\<close>.
\<close>

theorem block_summary_total:
  "summarizeBlock b = blockToApiObject b
   \<and> summarizeBlock None = \<lparr> blockNumber = 0, timestamp = 0, memberCount = 0, totalEarnings = 0 \<rparr>
   \<and> summarizeBlock (Some (x \<lparr> blk_members := None \<rparr>))
       = \<lparr> blockNumber = 0, timestamp = 0, memberCount = 0, totalEarnings = 0 \<rparr>
   \<and> summarizeBlock (Some (x \<lparr> blk_members := Some members \<rparr>))
       = \<lparr> blockNumber = (case blk_blockNumber x of None \<Rightarrow> 0 | Some n \<Rightarrow> n),
           timestamp = (case blk_timestamp x of None \<Rightarrow> 0 | Some n \<Rightarrow> n),
           memberCount = int (length members),
           totalEarnings = (case blk_totalEarnings x of None \<Rightarrow> 0 | Some n \<Rightarrow> n) \<rparr>"
  by (simp add: summarizeBlock_def blockToApiObject_def no_members_block_def js_or0_def
      split: option.splits)

theorem block_summary_total_witness:
  "summarizeBlock (Some \<lparr> blk_blockNumber = Some 7, blk_timestamp = None,
       blk_members = Some [\<lparr> name = '''', address = ''0xaaaaaaaaaaaaaaaaaaaaaaaaaaaaaaaaaaaaaaaa'', earnings = 10, active = True \<rparr>],
       blk_totalEarnings = Some 10 \<rparr>)
     = \<lparr> blockNumber = 7, timestamp = 0, memberCount = 1, totalEarnings = 10 \<rparr>
   \<and> blockToApiObject (Some \<lparr> blk_blockNumber = Some 7, blk_timestamp = Some 3,
       blk_members = None, blk_totalEarnings = Some 10 \<rparr>)
     = \<lparr> blockNumber = 0, timestamp = 0, memberCount = 0, totalEarnings = 0 \<rparr>"
  using block_summary_total [of "Some \<lparr> blk_blockNumber = Some 7, blk_timestamp = Some 3,
       blk_members = None, blk_totalEarnings = Some 10 \<rparr>"
     "\<lparr> blk_blockNumber = Some 7, blk_timestamp = None, blk_members = None, blk_totalEarnings = Some 10 \<rparr>"
     "[\<lparr> name = '''', address = ''0xaaaaaaaaaaaaaaaaaaaaaaaaaaaaaaaaaaaaaaaa'', earnings = 10, active = True \<rparr>]"]
     block_summary_total [of "None"
     "\<lparr> blk_blockNumber = Some 7, blk_timestamp = Some 3, blk_members = None, blk_totalEarnings = Some 10 \<rparr>"
     "[]"]
  by simp

end
